theory Spec2Isabelle
  imports Main
begin

section \<open>Errors and awaited results\<close>

text \<open>
  A JavaScript exception (a \<^verbatim>\<open>throw\<close>, or the rejection of an awaited promise) is a value:
  every operation that can fail returns \<open>Error + 'a\<close>, with \<open>Inl\<close> for the error.
  \<open>await p k\<close> is \<^verbatim>\<open>const v = await p; k(v)\<close>: a rejected \<open>p\<close> leaves the function at once.
\<close>

datatype Error = Error string

definition await :: "Error + 'a \<Rightarrow> ('a \<Rightarrow> Error + 'b) \<Rightarrow> Error + 'b" where
  "await p k = (case p of Inl e \<Rightarrow> Inl e | Inr v \<Rightarrow> k v)"

text \<open>
  \<open>call r k\<close> is \<^verbatim>\<open>const v = f(); k(v)\<close> for a call that is not awaited: \<open>Inl\<close> is an
  exception thrown by the call itself. A promise the call returns is part of the value
  \<open>v\<close>, and its rejection is seen only where it is awaited.
\<close>

definition call :: "Error + 'a \<Rightarrow> ('a \<Rightarrow> Error + 'b) \<Rightarrow> Error + 'b" where
  "call r k = (case r of Inl e \<Rightarrow> Inl e | Inr v \<Rightarrow> k v)"

section \<open>URIs and file stats\<close>

text \<open>
  Modelled from the spec: the class \<^verbatim>\<open>URI\<close> (\<^verbatim>\<open>@theia/core/lib/common/uri\<close>) and its
  \<^verbatim>\<open>Path\<close> are not among the source files. The spec speaks of a URI's scheme, of its path,
  of the path being the filesystem root, and of the parent URI, whose chain is "acyclic by
  construction" and runs to the filesystem root. A URI is a scheme and the list of the
  segments of an absolute path; the root is the path without segments; the parent drops
  the last segment.
\<close>

record URI =
  scheme :: string
  path :: "string list"

text \<open>Modelled from the spec: \<^verbatim>\<open>Path.isRoot\<close>, "the requested path is the filesystem root".\<close>

definition isRoot :: "string list \<Rightarrow> bool" where
  "isRoot p = (p = [])"

text \<open>
  Modelled from the spec: \<^verbatim>\<open>URI.parent\<close>, the next URI of the chain that strictly shortens
  toward the filesystem root. The code asks for the parent of no root.
\<close>

definition parent :: "URI \<Rightarrow> URI" where
  "parent u = u\<lparr>path := butlast (path u)\<rparr>"

text \<open>
  Modelled from the spec: \<^verbatim>\<open>Path.toString\<close> and \<^verbatim>\<open>URI.toString\<close>, the "plain path string" and
  the string of the URI from which node ids are derived.
\<close>

definition Path_toString :: "string list \<Rightarrow> string" where
  "Path_toString p = (if p = [] then ''/'' else concat (map (\<lambda>s. ''/'' @ s) p))"

definition toString :: "URI \<Rightarrow> string" where
  "toString u = scheme u @ ''://'' @ Path_toString (path u)"

text \<open>
  \<^verbatim>\<open>FileStat\<close> (\<^verbatim>\<open>@theia/filesystem/lib/common\<close>) is declared outside the source files; the
  code reads its \<^verbatim>\<open>uri\<close>, a string.
\<close>

record FileStat =
  uri :: string
  isDirectory :: bool

section \<open>The collaborators\<close>

text \<open>
  The services are injected; their code is not part of the sources, so each is a record
  of the operations the code calls, and every theorem holds for all of them.
\<close>

record WorkspaceService =
  roots :: "Error + FileStat list"
  tryGetRoots :: "FileStat list"

record FileSystem =
  getFileStat :: "string \<Rightarrow> Error + FileStat option"
  getCurrentUserHome :: "Error + FileStat option"

record LabelProvider =
  getName :: "URI \<Rightarrow> Error + string"
  getIcon :: "URI \<Rightarrow> Error + string"

section \<open>The dialog bridge: \<^verbatim>\<open>dialogs-main.ts\<close>\<close>

text \<open>
  Modelled from the spec: \<^verbatim>\<open>OpenDialogOptionsMain\<close> (\<^verbatim>\<open>plugin-api.ts\<close>) is not among the source
  files; the request "carries \<^verbatim>\<open>{defaultUri?, canSelectFiles?, canSelectFolders?, canSelectMany?,
  openLabel?, filters?}\<close>", every field optional. \<^verbatim>\<open>FileDialogProps\<close> has the fields of the
  object literal of lines 100 to 107.
\<close>

record OpenDialogOptionsMain =
  defaultUri :: "string option"
  canSelectFiles :: "bool option"
  canSelectFolders :: "bool option"
  canSelectMany :: "bool option"
  openLabel :: "string option"
  filters :: "(string \<times> string list) list option"

record FileDialogProps =
  title :: string
  props_openLabel :: "string option"
  props_canSelectFiles :: "bool option"
  props_canSelectFolders :: "bool option"
  props_canSelectMany :: "bool option"
  props_filters :: "(string \<times> string list) list option"

text \<open>
  The root node of the dialog, \<^verbatim>\<open>DirNode.createRoot(rootStat, name, icon)\<close>: the function is
  outside the sources, and the node is kept as the three values it is built from.
\<close>

record DirRootNode =
  fileStat :: FileStat
  name :: string
  icon :: string

definition DirNode_createRoot :: "FileStat \<Rightarrow> string \<Rightarrow> string \<Rightarrow> DirRootNode" where
  "DirNode_createRoot rootStat nm ic = \<lparr>fileStat = rootStat, name = nm, icon = ic\<rparr>"

text \<open>
  The dialog: \<open>'d\<close> is the dialog object, \<open>'sel\<close> what \<^verbatim>\<open>dialog.open()\<close> resolves with.
  \<^verbatim>\<open>new URI(string)\<close> and \<^verbatim>\<open>UriSelection.getUris\<close> are library functions outside the sources.
  \<^verbatim>\<open>dialog.model.navigateTo(rootNode)\<close> either throws (\<open>Inl\<close>) or returns: then it gives the
  dialog as the call leaves it and the promise of the navigation, \<open>Inl\<close> when that promise
  is rejected.
\<close>

record ('d, 'sel) DialogsMainImpl =
  workspaceService :: WorkspaceService
  fileSystem :: FileSystem
  labelProvider :: LabelProvider
  fileDialogFactory :: "FileDialogProps \<Rightarrow> Error + 'd"
  navigateTo :: "'d \<Rightarrow> DirRootNode \<Rightarrow> Error + ('d \<times> (Error + unit))"
  dialog_open :: "'d \<Rightarrow> Error + 'sel"
  newURI :: "string \<Rightarrow> URI"
  getUris :: "'sel \<Rightarrow> URI list"

text \<open>
  \<^verbatim>\<open>if (options.defaultUri)\<close> tests a \<^verbatim>\<open>string | undefined\<close>: \<^verbatim>\<open>undefined\<close> and the empty
  string are falsy. \<open>truthy_string\<close> returns the string the branch then reads.
\<close>

definition truthy_string :: "string option \<Rightarrow> string option" where
  "truthy_string s = (case s of None \<Rightarrow> None | Some v \<Rightarrow> if v = [] then None else Some v)"

text \<open>\<^verbatim>\<open>xs[0]\<close>: \<^verbatim>\<open>undefined\<close> on an empty array.\<close>

definition first :: "'a list \<Rightarrow> 'a option" where
  "first xs = (case xs of [] \<Rightarrow> None | x # _ \<Rightarrow> Some x)"

text \<open>Lines 51 to 71 of \<^verbatim>\<open>$showOpenDialog\<close>: the root stat, or the thrown error.\<close>

definition rootStat_of :: "('d, 'sel) DialogsMainImpl \<Rightarrow> OpenDialogOptionsMain \<Rightarrow> Error + FileStat" where
  "rootStat_of this options =
     await (case truthy_string (defaultUri options) of
              Some u \<Rightarrow> getFileStat (fileSystem this) u
            | None \<Rightarrow> Inr None) (\<lambda>rootStat.
     await (case rootStat of
              None \<Rightarrow> await (roots (workspaceService this)) (\<lambda>rs. Inr (first rs))
            | Some s \<Rightarrow> Inr (Some s)) (\<lambda>rootStat.
     await (case rootStat of
              None \<Rightarrow> getCurrentUserHome (fileSystem this)
            | Some s \<Rightarrow> Inr (Some s)) (\<lambda>rootStat.
     case rootStat of
       None \<Rightarrow> Inl (Error ''Unable to find the rootStat'')
     | Some s \<Rightarrow> Inr s)))"

text \<open>Lines 81 to 97: the title of the dialog.\<close>

definition dialog_title :: "OpenDialogOptionsMain \<Rightarrow> string" where
  "dialog_title options =
     (let canFiles = (case canSelectFiles options of Some b \<Rightarrow> b | None \<Rightarrow> True);
          canFolders = (case canSelectFolders options of Some b \<Rightarrow> b | None \<Rightarrow> True)
      in if canFiles \<and> canFolders then ''Open''
         else (if canFiles then ''Open File'' else ''Open Folder'')
              @ (if canSelectMany options = Some True then ''(s)'' else ''''))"

definition dialogProps :: "OpenDialogOptionsMain \<Rightarrow> FileDialogProps" where
  "dialogProps options =
     \<lparr>title = dialog_title options,
      props_openLabel = openLabel options,
      props_canSelectFiles = canSelectFiles options,
      props_canSelectFolders = canSelectFolders options,
      props_canSelectMany = canSelectMany options,
      props_filters = filters options\<rparr>"

text \<open>
  Lines 80 to 115: the body of the \<^verbatim>\<open>try\<close> block. Line 111 calls \<^verbatim>\<open>navigateTo\<close> and does not
  await it: the promise \<open>navigated\<close> is dropped, and \<^verbatim>\<open>dialog.open()\<close> is called whether the
  navigation succeeds or not.
\<close>

definition try_block :: "('d, 'sel) DialogsMainImpl \<Rightarrow> OpenDialogOptionsMain \<Rightarrow> DirRootNode \<Rightarrow> Error + string list" where
  "try_block this options rootNode =
     call (fileDialogFactory this (dialogProps options)) (\<lambda>dialog.
     call (navigateTo this dialog rootNode) (\<lambda>(dialog, navigated).
     await (dialog_open this dialog) (\<lambda>result.
     Inr (map (\<lambda>u. Path_toString (path u)) (getUris this result)))))"

text \<open>
  \<^verbatim>\<open>$showOpenDialog\<close>. The result is \<open>Inl\<close> for a rejected promise, and otherwise the
  resolved value (\<open>None\<close> for \<^verbatim>\<open>undefined\<close>) with what \<^verbatim>\<open>console.log\<close> printed.
\<close>

definition showOpenDialog :: "('d, 'sel) DialogsMainImpl \<Rightarrow> OpenDialogOptionsMain \<Rightarrow> Error + (string list option \<times> Error list)" where
  "showOpenDialog this options =
     await (rootStat_of this options) (\<lambda>rootStat.
     let rootUri = newURI this (uri rootStat) in
     call (getName (labelProvider this) rootUri) (\<lambda>nm.
     await (getIcon (labelProvider this) rootUri) (\<lambda>ic.
     let rootNode = DirNode_createRoot rootStat nm ic in
     case try_block this options rootNode of
       Inr paths \<Rightarrow> Inr (Some paths, [])
     | Inl error \<Rightarrow> Inr (None, [error]))))"

section \<open>The navigator model: \<^verbatim>\<open>navigator-model.ts\<close>\<close>

subsection \<open>Tree nodes\<close>

text \<open>
  Modelled from the spec: the node types and their type guards (\<^verbatim>\<open>navigator-tree.ts\<close>, the
  tree of \<^verbatim>\<open>@theia/core\<close> and of \<^verbatim>\<open>@theia/filesystem\<close>) are not among the source files. The
  spec's data model has a synthetic WorkspaceNode that owns an ordered sequence of
  WorkspaceRootNode children, a WorkspaceRootNode that is "a directory tree-node representing
  one workspace root", and DirNode and FileNode, each with "a stable id, a parent reference
  (non-owning), an expansion flag (directories only), and children". A node carries its
  kind; the parent reference is the id of the parent; \<open>expanded\<close> is \<open>None\<close> on a node
  without the \<^verbatim>\<open>expanded\<close> property. \<open>OtherNode\<close> stands for any other \<^verbatim>\<open>TreeNode\<close>.
\<close>

datatype NodeKind = WorkspaceNode | WorkspaceRootNode | DirNode | FileNode | OtherNode

datatype TreeNode =
  TreeNode (node_id: string) (node_kind: NodeKind) (node_parent: "string option")
           (expanded: "bool option") (children: "TreeNode list")

text \<open>
  Modelled from the spec: the type guards, applied to \<^verbatim>\<open>TreeNode | undefined\<close>. A workspace
  root node is a directory node; the expandable nodes are those with an expansion flag.
\<close>

definition WorkspaceRootNode_is :: "TreeNode option \<Rightarrow> bool" where
  "WorkspaceRootNode_is node = (case node of None \<Rightarrow> False | Some n \<Rightarrow> node_kind n = WorkspaceRootNode)"

definition DirNode_is :: "TreeNode option \<Rightarrow> bool" where
  "DirNode_is node = (case node of None \<Rightarrow> False | Some n \<Rightarrow> node_kind n = DirNode \<or> node_kind n = WorkspaceRootNode)"

definition FileNode_is :: "TreeNode option \<Rightarrow> bool" where
  "FileNode_is node = (case node of None \<Rightarrow> False | Some n \<Rightarrow> node_kind n = FileNode)"

definition ExpandableTreeNode_is :: "TreeNode option \<Rightarrow> bool" where
  "ExpandableTreeNode_is node = (case node of None \<Rightarrow> False | Some n \<Rightarrow> expanded n \<noteq> None)"

text \<open>\<^verbatim>\<open>node.expanded\<close> read as a condition: true only for the value \<^verbatim>\<open>true\<close>.\<close>

definition is_expanded :: "TreeNode \<Rightarrow> bool" where
  "is_expanded n = (expanded n = Some True)"

text \<open>
  Modelled from the spec: \<^verbatim>\<open>WorkspaceNode.createRoot\<close> (\<^verbatim>\<open>navigator-tree.ts\<close>) builds the
  synthetic root, which has no parent and no expansion flag. The text of its id is not
  given by the spec; no theorem depends on it.
\<close>

definition WorkspaceNode_createRoot :: "TreeNode list \<Rightarrow> TreeNode" where
  "WorkspaceNode_createRoot cs = TreeNode ''WorkspaceNode'' WorkspaceNode None None cs"

text \<open>The assignment \<^verbatim>\<open>node.children = cs\<close>.\<close>

definition set_children :: "TreeNode \<Rightarrow> TreeNode list \<Rightarrow> TreeNode" where
  "set_children n cs = TreeNode (node_id n) (node_kind n) (node_parent n) (expanded n) cs"

subsection \<open>The tree and the model's collaborators\<close>

text \<open>
  The state the model works on: the root of the tree, and the mounted nodes by id
  (what \<^verbatim>\<open>this.getNode(id)\<close> looks up). A lookup gives the node as it is in the tree at
  that moment; a node held across a later expansion keeps the fields it was read with.
\<close>

record Tree =
  root :: "TreeNode option"
  nodes :: "string \<rightharpoonup> TreeNode"

definition getNode :: "Tree \<Rightarrow> string \<Rightarrow> TreeNode option" where
  "getNode t i = nodes t i"

text \<open>
  What the model calls and the sources do not hold: the workspace service,
  \<^verbatim>\<open>WorkspaceRootNode.createId\<close>, \<^verbatim>\<open>this.tree.createWorkspaceRoot\<close>, and the inherited
  \<^verbatim>\<open>expandNode\<close> and \<^verbatim>\<open>move\<close> of the tree model, which change the tree.
\<close>

record FileNavigatorModel =
  workspaceService :: WorkspaceService
  createId :: "string \<Rightarrow> string \<Rightarrow> string"
  createWorkspaceRoot :: "FileStat \<Rightarrow> TreeNode \<Rightarrow> Error + TreeNode"
  expandNode :: "TreeNode \<Rightarrow> Tree \<Rightarrow> Error + Tree"
  super_move :: "TreeNode \<Rightarrow> TreeNode \<Rightarrow> Tree \<Rightarrow> Error + Tree"

text \<open>
  Modelled from the spec: \<^verbatim>\<open>FileChange\<close> and \<^verbatim>\<open>FileChangeType\<close> (\<^verbatim>\<open>@theia/filesystem\<close>) are not
  among the source files; the spec has "an event record with a changed-file URI and a
  change kind (created/updated/deleted)".
\<close>

datatype FileChangeType = CREATED | UPDATED | DELETED

record FileChange =
  change_uri :: URI
  change_type :: FileChangeType

subsection \<open>\<^verbatim>\<open>updateRoot\<close> and \<^verbatim>\<open>createRoot\<close>\<close>

text \<open>The loop of \<^verbatim>\<open>createRoot\<close>: one awaited \<^verbatim>\<open>createWorkspaceRoot\<close> per root, pushed in order.\<close>

fun push_children :: "FileNavigatorModel \<Rightarrow> TreeNode \<Rightarrow> FileStat list \<Rightarrow> TreeNode list \<Rightarrow> Error + TreeNode list" where
  "push_children this workspaceNode [] cs = Inr cs"
| "push_children this workspaceNode (r # rs) cs =
     await (createWorkspaceRoot this r workspaceNode) (\<lambda>c.
     push_children this workspaceNode rs (cs @ [c]))"

definition createRoot :: "FileNavigatorModel \<Rightarrow> Error + TreeNode option" where
  "createRoot this =
     await (roots (FileNavigatorModel.workspaceService this)) (\<lambda>rs.
     if length rs > 0 then
       (let workspaceNode = WorkspaceNode_createRoot [] in
        await (push_children this workspaceNode rs []) (\<lambda>cs.
        Inr (Some (set_children workspaceNode cs))))
     else Inr None)"

definition updateRoot :: "FileNavigatorModel \<Rightarrow> Tree \<Rightarrow> Error + Tree" where
  "updateRoot this t = await (createRoot this) (\<lambda>r. Inr (t\<lparr>root := r\<rparr>))"

subsection \<open>\<^verbatim>\<open>move\<close>\<close>

definition move :: "FileNavigatorModel \<Rightarrow> TreeNode \<Rightarrow> TreeNode \<Rightarrow> Tree \<Rightarrow> Error + Tree" where
  "move this source target t =
     (if node_parent source \<noteq> None \<and> WorkspaceRootNode_is (Some source) then Inr t
      else super_move this source target t)"

subsection \<open>Looking nodes up by URI\<close>

definition getNodesByUri :: "FileNavigatorModel \<Rightarrow> string \<Rightarrow> Tree \<Rightarrow> Error + TreeNode list" where
  "getNodesByUri this nodeUri t =
     await (roots (FileNavigatorModel.workspaceService this)) (\<lambda>rs.
     Inr (List.map_filter (\<lambda>parentNodeId. getNode t parentNodeId)
            (map (\<lambda>r. createId this (uri r) nodeUri) rs)))"

text \<open>\<^verbatim>\<open>Array.prototype.reduce\<close> without an initial value: a TypeError on an empty array.\<close>

definition reduce :: "('a \<Rightarrow> 'a \<Rightarrow> 'a) \<Rightarrow> 'a list \<Rightarrow> Error + 'a" where
  "reduce f xs =
     (case xs of
        [] \<Rightarrow> Inl (Error ''Reduce of empty array with no initial value'')
      | x # rest \<Rightarrow> Inr (foldl f x rest))"

definition getNodeClosestToRootByUri :: "FileNavigatorModel \<Rightarrow> string \<Rightarrow> Tree \<Rightarrow> Error + TreeNode option" where
  "getNodeClosestToRootByUri this u t =
     await (getNodesByUri this u t) (\<lambda>ns.
     if length ns > 0 then
       await (reduce (\<lambda>node1 node2.
                if length (node_id node1) \<ge> length (node_id node2) then node1 else node2) ns)
         (\<lambda>n. Inr (Some n))
     else Inr None)"

subsection \<open>\<^verbatim>\<open>revealFile\<close>\<close>

text \<open>
  The result of a call that returns: the error, or the revealed node (\<open>None\<close> for
  \<^verbatim>\<open>undefined\<close>) and the tree after the expansions.
\<close>

type_synonym Revealed = "Error + (TreeNode option \<times> Tree)"

text \<open>
  Lines 119 to 122, and 97 to 101 alike: expand the node if it is expandable and not
  expanded, and return it. \<^verbatim>\<open>ExpandableTreeNode.is(undefined)\<close> is false.
\<close>

definition expand_and_return :: "FileNavigatorModel \<Rightarrow> TreeNode option \<Rightarrow> Tree \<Rightarrow> Revealed" where
  "expand_and_return this node t =
     (case node of
        None \<Rightarrow> Inr (None, t)
      | Some n \<Rightarrow>
          if ExpandableTreeNode_is (Some n) \<and> \<not> is_expanded n then
            await (expandNode this n t) (\<lambda>t'. Inr (Some n, t'))
          else Inr (Some n, t))"

text \<open>Lines 114 to 124: what follows the recursive call, given its result.\<close>

definition after_parent :: "FileNavigatorModel \<Rightarrow> string \<Rightarrow> TreeNode option \<Rightarrow> Revealed \<Rightarrow> Revealed" where
  "after_parent this navigatorNodeId node r =
     await r (\<lambda>(p, t1).
     if p \<noteq> None then
       await (if node = None then getNodeClosestToRootByUri this navigatorNodeId t1 else Inr node)
         (\<lambda>node'. expand_and_return this node' t1)
     else Inr (None, t1))"

text \<open>
  The recursion of \<^verbatim>\<open>revealFile\<close> is not assumed to end: the function is partial, and \<open>None\<close>
  is a call that never returns.
\<close>

partial_function (option) revealFile ::
  "FileNavigatorModel \<Rightarrow> URI \<Rightarrow> Tree \<Rightarrow> Revealed option" where
  "revealFile this targetFileUri t =
     (if scheme targetFileUri \<noteq> ''file'' then Some (Inr (None, t))
      else
        let navigatorNodeId = toString targetFileUri in
        case getNodeClosestToRootByUri this navigatorNodeId t of
          Inl e \<Rightarrow> Some (Inl e)
        | Inr node \<Rightarrow>
            if WorkspaceRootNode_is node then
              (if ExpandableTreeNode_is node then Some (expand_and_return this node t)
               else Some (Inr (None, t)))
            else if isRoot (path targetFileUri) then Some (Inr (None, t))
            else
              Option.bind (revealFile this (parent targetFileUri) t)
                (\<lambda>r. Some (after_parent this navigatorNodeId node r)))"

declare revealFile.simps [code]

text \<open>
  The same function with a bound on the depth of the recursion: \<open>revealFile_depth d\<close>
  allows \<open>d\<close> nested calls and is \<open>None\<close> when a further one would be needed.
\<close>

fun revealFile_depth ::
  "nat \<Rightarrow> FileNavigatorModel \<Rightarrow> URI \<Rightarrow> Tree \<Rightarrow> Revealed option" where
  "revealFile_depth 0 this targetFileUri t = None"
| "revealFile_depth (Suc d) this targetFileUri t =
     (if scheme targetFileUri \<noteq> ''file'' then Some (Inr (None, t))
      else
        let navigatorNodeId = toString targetFileUri in
        case getNodeClosestToRootByUri this navigatorNodeId t of
          Inl e \<Rightarrow> Some (Inl e)
        | Inr node \<Rightarrow>
            if WorkspaceRootNode_is node then
              (if ExpandableTreeNode_is node then Some (expand_and_return this node t)
               else Some (Inr (None, t)))
            else if isRoot (path targetFileUri) then Some (Inr (None, t))
            else
              Option.bind (revealFile_depth d this (parent targetFileUri) t)
                (\<lambda>r. Some (after_parent this navigatorNodeId node r)))"

text \<open>The URIs the recursion can visit: the URI, its parent, and so on to the filesystem root.\<close>

function ancestry :: "URI \<Rightarrow> URI list" where
  "ancestry u = (if isRoot (path u) then [u] else u # ancestry (parent u))"
  by pat_completeness auto
termination
  by (relation "measure (\<lambda>u. length (path u))") (auto simp: isRoot_def parent_def)

declare ancestry.simps [simp del]

text \<open>
  A chain of URIs is revealed in a tree when the lookups along it find, first, nodes that
  are no workspace root nodes and need no expansion (not expandable, or expanded), and
  then a workspace root node that is expanded.
\<close>

fun revealed_chain :: "FileNavigatorModel \<Rightarrow> Tree \<Rightarrow> URI list \<Rightarrow> bool" where
  "revealed_chain this t [] = False"
| "revealed_chain this t (a # as) =
     (case getNodeClosestToRootByUri this (toString a) t of
        Inr (Some n) \<Rightarrow>
          if WorkspaceRootNode_is (Some n) then is_expanded n
          else (\<not> ExpandableTreeNode_is (Some n) \<or> is_expanded n) \<and> revealed_chain this t as
      | _ \<Rightarrow> False)"

subsection \<open>\<^verbatim>\<open>collectAffectedNodes\<close>\<close>

definition isFileContentChanged :: "FileNavigatorModel \<Rightarrow> FileChange \<Rightarrow> Tree \<Rightarrow> bool" where
  "isFileContentChanged this change t =
     (let rs = tryGetRoots (FileNavigatorModel.workspaceService this) in
      if length rs = 0 then False
      else
        let nodeId = createId this (uri (rs ! 0)) (toString (change_uri change));
            node = getNode t nodeId
        in change_type change = UPDATED \<and> FileNode_is node)"

text \<open>
  The callback \<^verbatim>\<open>accept\<close> acts on a state of the caller, \<open>'s\<close>; \<^verbatim>\<open>forEach\<close> calls it on the
  nodes in order.
\<close>

definition collectAffectedNodes ::
  "FileNavigatorModel \<Rightarrow> FileChange \<Rightarrow> (TreeNode \<Rightarrow> 's \<Rightarrow> 's) \<Rightarrow> Tree \<Rightarrow> 's \<Rightarrow> Error + 's" where
  "collectAffectedNodes this change accept t s =
     (if isFileContentChanged this change t then Inr s
      else
        await (getNodesByUri this (toString (parent (change_uri change))) t) (\<lambda>ns.
        Inr (fold (\<lambda>parentNode acc.
                     if DirNode_is (Some parentNode) \<and> is_expanded parentNode
                     then accept parentNode acc else acc) ns s)))"

section \<open>Example configurations\<close>

text \<open>Concrete collaborators, options and trees, on which the theorems below are instantiated.\<close>

definition example_stat :: "string \<Rightarrow> FileStat" where
  "example_stat u = \<lparr>uri = u, isDirectory = True\<rparr>"

text \<open>
  A dialog bridge over a filesystem that holds the one directory \<^verbatim>\<open>file:///d\<close>, with the given
  workspace roots and home directory; its dialog returns the selection \<^verbatim>\<open>file:///d/x.ts\<close>,
  or fails when \<open>fails\<close> is set.
\<close>

definition example_dialogs :: "FileStat list \<Rightarrow> FileStat option \<Rightarrow> bool \<Rightarrow> (unit, URI list) DialogsMainImpl" where
  "example_dialogs rs home fails =
     \<lparr>DialogsMainImpl.workspaceService = \<lparr>roots = Inr rs, tryGetRoots = rs\<rparr>,
      fileSystem = \<lparr>getFileStat = (\<lambda>u. Inr (if u = ''file:///d'' then Some (example_stat u) else None)),
                    getCurrentUserHome = Inr home\<rparr>,
      labelProvider = \<lparr>getName = (\<lambda>u. Inr (Path_toString (path u))), getIcon = (\<lambda>u. Inr ''folder'')\<rparr>,
      fileDialogFactory = (\<lambda>props. Inr ()),
      navigateTo = (\<lambda>dialog rootNode. Inr (dialog, Inr ())),
      dialog_open = (\<lambda>dialog. if fails then Inl (Error ''dialog failed'')
                               else Inr [\<lparr>scheme = ''file'', path = [''d'', ''x.ts'']\<rparr>]),
      newURI = (\<lambda>s. \<lparr>scheme = ''file'', path = [drop 8 s]\<rparr>),
      getUris = (\<lambda>selection. selection)\<rparr>"

text \<open>
  A dialog bridge with the given collaborators: the stat function of the filesystem, the
  promise of the workspace roots, what the call of \<^verbatim>\<open>navigateTo\<close> gives, and what
  \<^verbatim>\<open>dialog.open()\<close> gives. There is no home directory. A dialog closed without a selection
  resolves with \<^verbatim>\<open>undefined\<close> (\<open>None\<close>), for which \<^verbatim>\<open>getUris\<close> returns the empty array.
\<close>

definition example_bridge ::
  "(string \<Rightarrow> Error + FileStat option) \<Rightarrow> (Error + FileStat list) \<Rightarrow>
   (Error + (unit \<times> (Error + unit))) \<Rightarrow> (Error + URI list option) \<Rightarrow>
   (unit, URI list option) DialogsMainImpl" where
  "example_bridge stat rs navigated opened =
     \<lparr>DialogsMainImpl.workspaceService = \<lparr>roots = rs, tryGetRoots = []\<rparr>,
      fileSystem = \<lparr>getFileStat = stat, getCurrentUserHome = Inr None\<rparr>,
      labelProvider = \<lparr>getName = (\<lambda>u. Inr (Path_toString (path u))), getIcon = (\<lambda>u. Inr ''folder'')\<rparr>,
      fileDialogFactory = (\<lambda>props. Inr ()),
      navigateTo = (\<lambda>dialog rootNode. navigated),
      dialog_open = (\<lambda>dialog. opened),
      newURI = (\<lambda>s. \<lparr>scheme = ''file'', path = [drop 8 s]\<rparr>),
      getUris = (\<lambda>selection. case selection of None \<Rightarrow> [] | Some us \<Rightarrow> us)\<rparr>"

text \<open>The stat function of a filesystem that holds the one directory \<^verbatim>\<open>file:///d\<close>.\<close>

definition example_getFileStat :: "string \<Rightarrow> Error + FileStat option" where
  "example_getFileStat u = Inr (if u = ''file:///d'' then Some (example_stat u) else None)"

definition example_options :: "string option \<Rightarrow> OpenDialogOptionsMain" where
  "example_options d =
     \<lparr>defaultUri = d, canSelectFiles = None, canSelectFolders = None, canSelectMany = None,
      openLabel = None, filters = None\<rparr>"

text \<open>
  A navigator over the given workspace roots. Node ids are \<^verbatim>\<open>rootUri|nodeUri\<close>; a created
  workspace root node is collapsed; \<^verbatim>\<open>expandNode\<close> sets the expansion flag of the mounted
  node; the inherited \<^verbatim>\<open>move\<close> always fails, so that a call of it shows.
\<close>

definition example_navigator :: "FileStat list \<Rightarrow> FileNavigatorModel" where
  "example_navigator rs =
     \<lparr>FileNavigatorModel.workspaceService = \<lparr>roots = Inr rs, tryGetRoots = rs\<rparr>,
      createId = (\<lambda>r u. r @ ''|'' @ u),
      createWorkspaceRoot = (\<lambda>r w. Inr (TreeNode (uri r @ ''|'' @ uri r) WorkspaceRootNode
                                            (Some (node_id w)) (Some False) [])),
      expandNode = (\<lambda>n t. Inr (t\<lparr>nodes := (nodes t)(node_id n \<mapsto>
                        TreeNode (node_id n) (node_kind n) (node_parent n) (Some True) (children n))\<rparr>)),
      super_move = (\<lambda>source target t. Inl (Error ''super.move''))\<rparr>"

definition example_roots :: "FileStat list" where
  "example_roots = [example_stat ''file:///a'', example_stat ''file:///b'']"

text \<open>
  A tree over the roots \<^verbatim>\<open>file:///a\<close> and \<^verbatim>\<open>file:///b\<close>, both expanded: under \<^verbatim>\<open>a\<close> the
  expanded directory \<^verbatim>\<open>s\<close> with the file \<^verbatim>\<open>x\<close>, and the collapsed directory \<^verbatim>\<open>c\<close>; under
  \<^verbatim>\<open>b\<close> the file \<^verbatim>\<open>y\<close>.
\<close>

definition example_node :: "string \<Rightarrow> NodeKind \<Rightarrow> string \<Rightarrow> bool option \<Rightarrow> string \<times> TreeNode" where
  "example_node i k p e = (i, TreeNode i k (Some p) e [])"

definition example_tree :: Tree where
  "example_tree =
     \<lparr>root = None,
      nodes = map_of
        [example_node ''file:///a|file:///a'' WorkspaceRootNode ''WorkspaceNode'' (Some True),
         example_node ''file:///a|file:///a/s'' DirNode ''file:///a|file:///a'' (Some True),
         example_node ''file:///a|file:///a/s/x'' FileNode ''file:///a|file:///a/s'' None,
         example_node ''file:///a|file:///a/c'' DirNode ''file:///a|file:///a'' (Some False),
         example_node ''file:///b|file:///b'' WorkspaceRootNode ''WorkspaceNode'' (Some True),
         example_node ''file:///b|file:///b/y'' FileNode ''file:///b|file:///b'' None]\<rparr>"

definition file_uri :: "string list \<Rightarrow> URI" where
  "file_uri p = \<lparr>scheme = ''file'', path = p\<rparr>"

text \<open>The example tree after the directory \<^verbatim>\<open>c\<close> has been expanded.\<close>

definition example_tree_expanded :: Tree where
  "example_tree_expanded =
     example_tree\<lparr>nodes := (nodes example_tree)(''file:///a|file:///a/c'' \<mapsto>
       TreeNode ''file:///a|file:///a/c'' DirNode (Some ''file:///a|file:///a'') (Some True) [])\<rparr>"

text \<open>
  Two overlapping roots, \<^verbatim>\<open>file:///a\<close> and \<^verbatim>\<open>file:///a/s\<close>, with the file \<^verbatim>\<open>file:///a/s/x\<close>
  mounted under both.
\<close>

definition overlapping_roots :: "FileStat list" where
  "overlapping_roots = [example_stat ''file:///a'', example_stat ''file:///a/s'']"

definition overlapping_tree :: Tree where
  "overlapping_tree =
     \<lparr>root = None,
      nodes = map_of
        [example_node ''file:///a|file:///a/s/x'' FileNode ''file:///a|file:///a/s'' None,
         example_node ''file:///a/s|file:///a/s/x'' FileNode ''file:///a/s|file:///a/s'' None]\<rparr>"

lemmas example_defs = example_dialogs_def example_options_def example_stat_def

lemmas bridge_defs = example_bridge_def example_getFileStat_def example_options_def example_stat_def

lemmas navigator_defs = example_navigator_def example_roots_def example_tree_def example_node_def
  example_stat_def file_uri_def overlapping_roots_def overlapping_tree_def

lemmas lookup_defs = getNodeClosestToRootByUri_def getNodesByUri_def getNode_def reduce_def
  toString_def Path_toString_def List.map_filter_def

section \<open>Properties of the dialog bridge\<close>

lemma await_Inr [simp]: "await (Inr v) k = k v"
  by (simp add: await_def)

lemma await_Inl [simp]: "await (Inl e) k = Inl e"
  by (simp add: await_def)

lemma call_Inr [simp]: "call (Inr v) k = k v"
  by (simp add: call_def)

lemma call_Inl [simp]: "call (Inl e) k = Inl e"
  by (simp add: call_def)

text \<open>
  C1. \<^verbatim>\<open>$showOpenDialog\<close> resolves the root of the dialog by a fixed precedence, the first
  match winning. If \<^verbatim>\<open>options.defaultUri\<close> is given (the source's test
  \<^verbatim>\<open>if (options.defaultUri)\<close>: present and not the empty string) and its stat resolves, that
  stat is the root, whatever the workspace and the home directory are. Otherwise (no default
  URI, or one without a stat) the first workspace root is the root. Otherwise (no workspace
  root either) the stat of the user's home directory is. If none of the three resolves,
  the operation fails with the error "Unable to find the rootStat".
\<close>

theorem rootStat_precedence:
  "(truthy_string (defaultUri options) = Some u \<and> getFileStat (fileSystem this) u = Inr (Some s)
      \<longrightarrow> rootStat_of this options = Inr s)
   \<and> ((truthy_string (defaultUri options) = None
        \<or> (truthy_string (defaultUri options) = Some u \<and> getFileStat (fileSystem this) u = Inr None))
      \<longrightarrow>
        (roots (DialogsMainImpl.workspaceService this) = Inr (r # rs) \<longrightarrow> rootStat_of this options = Inr r)
      \<and> (roots (DialogsMainImpl.workspaceService this) = Inr [] \<longrightarrow>
           (getCurrentUserHome (fileSystem this) = Inr (Some h) \<longrightarrow> rootStat_of this options = Inr h)
         \<and> (getCurrentUserHome (fileSystem this) = Inr None \<longrightarrow>
              rootStat_of this options = Inl (Error ''Unable to find the rootStat''))))"
  by (auto simp: rootStat_of_def first_def)

theorem rootStat_precedence_witness:
  "rootStat_of (example_dialogs [example_stat ''file:///w''] (Some (example_stat ''file:///h'')) False)
      (example_options (Some ''file:///d'')) = Inr (example_stat ''file:///d'')
   \<and> rootStat_of (example_dialogs [example_stat ''file:///w''] (Some (example_stat ''file:///h'')) False)
      (example_options None) = Inr (example_stat ''file:///w'')
   \<and> rootStat_of (example_dialogs [] (Some (example_stat ''file:///h'')) False)
      (example_options (Some ''file:///gone'')) = Inr (example_stat ''file:///h'')
   \<and> rootStat_of (example_dialogs [] None False) (example_options (Some ''''))
      = Inl (Error ''Unable to find the rootStat'')"
proof (intro conjI)
  let ?w = "example_stat ''file:///w''" and ?h = "example_stat ''file:///h''"
  show "rootStat_of (example_dialogs [?w] (Some ?h) False) (example_options (Some ''file:///d''))
        = Inr (example_stat ''file:///d'')"
    using rootStat_precedence [of "example_options (Some ''file:///d'')" "''file:///d''"
        "example_dialogs [?w] (Some ?h) False" "example_stat ''file:///d''"]
    by (simp add: example_defs truthy_string_def)
  show "rootStat_of (example_dialogs [?w] (Some ?h) False) (example_options None) = Inr ?w"
    using rootStat_precedence [of "example_options None" _ "example_dialogs [?w] (Some ?h) False" _ ?w "[]"]
    by (simp add: example_defs truthy_string_def)
  show "rootStat_of (example_dialogs [] (Some ?h) False) (example_options (Some ''file:///gone'')) = Inr ?h"
    using rootStat_precedence [of "example_options (Some ''file:///gone'')" "''file:///gone''"
        "example_dialogs [] (Some ?h) False" _ _ _ ?h]
    by (simp add: example_defs truthy_string_def)
  show "rootStat_of (example_dialogs [] None False) (example_options (Some ''''))
        = Inl (Error ''Unable to find the rootStat'')"
    using rootStat_precedence [of "example_options (Some '''')" _ "example_dialogs [] None False"]
    by (simp add: example_defs truthy_string_def)
qed

text \<open>
  C2, as stated, fails twice. \<^verbatim>\<open>$showOpenDialog\<close> does reject: the \<^verbatim>\<open>throw\<close> of line 70 stands
  before the \<^verbatim>\<open>try\<close> block of line 79, so with no default URI, no workspace root and no home
  directory the promise is rejected with "Unable to find the rootStat". And a cancelled
  dialog does not give \<^verbatim>\<open>undefined\<close>: when \<^verbatim>\<open>dialog.open()\<close> resolves without a selection, line
  115 returns the paths of \<^verbatim>\<open>UriSelection.getUris(result)\<close>, the empty array.
\<close>

theorem showOpenDialog_rejects_and_returns_empty:
  "showOpenDialog (example_dialogs [] None False) (example_options None)
     = Inl (Error ''Unable to find the rootStat'')
   \<and> showOpenDialog (example_bridge example_getFileStat (Inr []) (Inr ((), Inr ())) (Inr None))
       (example_options (Some ''file:///d''))
     = Inr (Some [], [])"
  by (simp add: showOpenDialog_def rootStat_of_def try_block_def first_def example_dialogs_def
        bridge_defs truthy_string_def)

text \<open>
  C2, amended. \<^verbatim>\<open>$showOpenDialog\<close> rejects when no root resolves (the error "Unable to find the
  rootStat" is thrown before the \<^verbatim>\<open>try\<close> block) and when a call before the \<^verbatim>\<open>try\<close> block fails:
  a rejected \<^verbatim>\<open>getFileStat\<close>, \<^verbatim>\<open>workspaceService.roots\<close>, \<^verbatim>\<open>getCurrentUserHome\<close> or \<^verbatim>\<open>getIcon\<close>, or a
  throwing \<^verbatim>\<open>getName\<close>, propagates to the caller. Once the root node is built the call never
  rejects. An error thrown by the dialog factory or by the call of \<^verbatim>\<open>navigateTo\<close>, or a
  rejection of \<^verbatim>\<open>dialog.open()\<close>, is caught and logged, and the call resolves with \<^verbatim>\<open>undefined\<close>.
  The promise of \<^verbatim>\<open>navigateTo\<close> is not awaited: whether it is rejected or not has no effect.
  Whenever \<^verbatim>\<open>dialog.open()\<close> resolves, with a selection or (the dialog cancelled) without one,
  the call resolves with the paths of \<^verbatim>\<open>UriSelection.getUris(result)\<close> as plain strings, an
  array and never \<^verbatim>\<open>undefined\<close>, and nothing is logged.
\<close>

theorem showOpenDialog_outcomes:
  "(truthy_string (defaultUri options) = Some u \<and> getFileStat (fileSystem this) u = Inl e
      \<longrightarrow> showOpenDialog this options = Inl e)
   \<and> ((truthy_string (defaultUri options) = None
        \<or> (truthy_string (defaultUri options) = Some u \<and> getFileStat (fileSystem this) u = Inr None))
      \<longrightarrow>
        (roots (DialogsMainImpl.workspaceService this) = Inl e
           \<longrightarrow> showOpenDialog this options = Inl e)
      \<and> (roots (DialogsMainImpl.workspaceService this) = Inr [] \<longrightarrow>
           (getCurrentUserHome (fileSystem this) = Inl e
              \<longrightarrow> showOpenDialog this options = Inl e)
         \<and> (getCurrentUserHome (fileSystem this) = Inr None
              \<longrightarrow> showOpenDialog this options = Inl (Error ''Unable to find the rootStat''))))
   \<and> (rootStat_of this options = Inr s \<longrightarrow>
        (getName (labelProvider this) (newURI this (uri s)) = Inl e
           \<longrightarrow> showOpenDialog this options = Inl e)
      \<and> (getName (labelProvider this) (newURI this (uri s)) = Inr nm \<longrightarrow>
           (getIcon (labelProvider this) (newURI this (uri s)) = Inl e
              \<longrightarrow> showOpenDialog this options = Inl e)
         \<and> (getIcon (labelProvider this) (newURI this (uri s)) = Inr ic \<longrightarrow>
              (\<exists>r. showOpenDialog this options = Inr r)
            \<and> (fileDialogFactory this (dialogProps options) = Inl err
                 \<longrightarrow> showOpenDialog this options = Inr (None, [err]))
            \<and> (fileDialogFactory this (dialogProps options) = Inr dialog0 \<longrightarrow>
                 (navigateTo this dialog0 (DirNode_createRoot s nm ic) = Inl err
                    \<longrightarrow> showOpenDialog this options = Inr (None, [err]))
               \<and> (navigateTo this dialog0 (DirNode_createRoot s nm ic) = Inr (dialog, navigated) \<longrightarrow>
                    (dialog_open this dialog = Inl err
                       \<longrightarrow> showOpenDialog this options = Inr (None, [err]))
                  \<and> (dialog_open this dialog = Inr result
                       \<longrightarrow> showOpenDialog this options
                           = Inr (Some (map (\<lambda>v. Path_toString (path v)) (getUris this result)), [])))))))"
proof (intro conjI impI)
  assume "truthy_string (defaultUri options) = Some u \<and> getFileStat (fileSystem this) u = Inl e"
  then show "showOpenDialog this options = Inl e"
    by (simp add: showOpenDialog_def rootStat_of_def)
next
  assume no_stat: "truthy_string (defaultUri options) = None
        \<or> (truthy_string (defaultUri options) = Some u \<and> getFileStat (fileSystem this) u = Inr None)"
  {
    assume "roots (DialogsMainImpl.workspaceService this) = Inl e"
    with no_stat show "showOpenDialog this options = Inl e"
      by (auto simp: showOpenDialog_def rootStat_of_def)
  next
    assume "roots (DialogsMainImpl.workspaceService this) = Inr []"
      and "getCurrentUserHome (fileSystem this) = Inl e"
    with no_stat show "showOpenDialog this options = Inl e"
      by (auto simp: showOpenDialog_def rootStat_of_def first_def)
  next
    assume "roots (DialogsMainImpl.workspaceService this) = Inr []"
      and "getCurrentUserHome (fileSystem this) = Inr None"
    with no_stat show "showOpenDialog this options = Inl (Error ''Unable to find the rootStat'')"
      by (auto simp: showOpenDialog_def rootStat_of_def first_def)
  }
next
  assume root: "rootStat_of this options = Inr s"
  {
    assume "getName (labelProvider this) (newURI this (uri s)) = Inl e"
    with root show "showOpenDialog this options = Inl e"
      by (simp add: showOpenDialog_def Let_def)
  next
    assume "getName (labelProvider this) (newURI this (uri s)) = Inr nm"
      and "getIcon (labelProvider this) (newURI this (uri s)) = Inl e"
    with root show "showOpenDialog this options = Inl e"
      by (simp add: showOpenDialog_def Let_def)
  next
    assume labels: "getName (labelProvider this) (newURI this (uri s)) = Inr nm"
      "getIcon (labelProvider this) (newURI this (uri s)) = Inr ic"
    have unfold: "showOpenDialog this options =
        (case try_block this options (DirNode_createRoot s nm ic) of
           Inr paths \<Rightarrow> Inr (Some paths, [])
         | Inl error \<Rightarrow> Inr (None, [error]))"
      using root labels by (simp add: showOpenDialog_def Let_def)
    show "\<exists>r. showOpenDialog this options = Inr r"
      unfolding unfold by (simp split: sum.splits)
    {
      assume "fileDialogFactory this (dialogProps options) = Inl err"
      then show "showOpenDialog this options = Inr (None, [err])"
        unfolding unfold by (simp add: try_block_def)
    next
      assume factory: "fileDialogFactory this (dialogProps options) = Inr dialog0"
      {
        assume "navigateTo this dialog0 (DirNode_createRoot s nm ic) = Inl err"
        with factory show "showOpenDialog this options = Inr (None, [err])"
          unfolding unfold by (simp add: try_block_def)
      next
        assume nav: "navigateTo this dialog0 (DirNode_createRoot s nm ic) = Inr (dialog, navigated)"
        {
          assume "dialog_open this dialog = Inl err"
          with factory nav show "showOpenDialog this options = Inr (None, [err])"
            unfolding unfold by (simp add: try_block_def)
        next
          assume "dialog_open this dialog = Inr result"
          with factory nav show "showOpenDialog this options
              = Inr (Some (map (\<lambda>v. Path_toString (path v)) (getUris this result)), [])"
            unfolding unfold by (simp add: try_block_def)
        }
      }
    }
  }
qed

theorem showOpenDialog_outcomes_witness:
  "showOpenDialog (example_bridge example_getFileStat (Inr []) (Inr ((), Inr ()))
       (Inr (Some [\<lparr>scheme = ''file'', path = [''d'', ''x.ts'']\<rparr>])))
     (example_options (Some ''file:///d''))
     = Inr (Some [''/d/x.ts''], [])
   \<and> showOpenDialog (example_bridge example_getFileStat (Inr []) (Inr ((), Inl (Error ''navigation failed'')))
       (Inr (Some [\<lparr>scheme = ''file'', path = [''d'', ''x.ts'']\<rparr>])))
     (example_options (Some ''file:///d''))
     = Inr (Some [''/d/x.ts''], [])
   \<and> showOpenDialog (example_bridge example_getFileStat (Inr []) (Inl (Error ''navigateTo threw''))
       (Inr None))
     (example_options (Some ''file:///d''))
     = Inr (None, [Error ''navigateTo threw''])
   \<and> showOpenDialog (example_bridge example_getFileStat (Inr []) (Inr ((), Inr ()))
       (Inl (Error ''dialog failed'')))
     (example_options (Some ''file:///d''))
     = Inr (None, [Error ''dialog failed''])
   \<and> showOpenDialog (example_bridge example_getFileStat (Inr []) (Inr ((), Inr ())) (Inr None))
     (example_options (Some ''file:///gone''))
     = Inl (Error ''Unable to find the rootStat'')
   \<and> showOpenDialog (example_bridge example_getFileStat (Inl (Error ''no workspace'')) (Inr ((), Inr ()))
       (Inr None))
     (example_options None)
     = Inl (Error ''no workspace'')
   \<and> showOpenDialog (example_bridge (\<lambda>u. Inl (Error ''stat failed'')) (Inr []) (Inr ((), Inr ()))
       (Inr None))
     (example_options (Some ''file:///d''))
     = Inl (Error ''stat failed'')"
proof (intro conjI)
  let ?d = "example_stat ''file:///d''" and ?o = "example_options (Some ''file:///d'')"
  let ?x = "[\<lparr>scheme = ''file'', path = [''d'', ''x.ts'']\<rparr>]"
  have root: "rootStat_of (example_bridge example_getFileStat (Inr []) n r) ?o = Inr ?d" for n r
    by (simp add: rootStat_of_def bridge_defs truthy_string_def)
  show "showOpenDialog (example_bridge example_getFileStat (Inr []) (Inr ((), Inr ())) (Inr (Some ?x))) ?o
        = Inr (Some [''/d/x.ts''], [])"
    using showOpenDialog_outcomes [where
        this = "example_bridge example_getFileStat (Inr []) (Inr ((), Inr ())) (Inr (Some ?x))"
        and options = ?o and s = ?d and nm = "''/d''" and ic = "''folder''" and ?dialog0.0 = "()"
        and dialog = "()" and navigated = "Inr ()" and result = "Some ?x"]
      root [of "Inr ((), Inr ())" "Inr (Some ?x)"]
    by (simp add: bridge_defs Path_toString_def)
  show "showOpenDialog (example_bridge example_getFileStat (Inr [])
          (Inr ((), Inl (Error ''navigation failed''))) (Inr (Some ?x))) ?o
        = Inr (Some [''/d/x.ts''], [])"
    using showOpenDialog_outcomes [where
        this = "example_bridge example_getFileStat (Inr []) (Inr ((), Inl (Error ''navigation failed'')))
                  (Inr (Some ?x))"
        and options = ?o and s = ?d and nm = "''/d''" and ic = "''folder''" and ?dialog0.0 = "()"
        and dialog = "()" and navigated = "Inl (Error ''navigation failed'')" and result = "Some ?x"]
      root [of "Inr ((), Inl (Error ''navigation failed''))" "Inr (Some ?x)"]
    by (simp add: bridge_defs Path_toString_def)
  show "showOpenDialog (example_bridge example_getFileStat (Inr []) (Inl (Error ''navigateTo threw''))
          (Inr None)) ?o
        = Inr (None, [Error ''navigateTo threw''])"
    using showOpenDialog_outcomes [where
        this = "example_bridge example_getFileStat (Inr []) (Inl (Error ''navigateTo threw'')) (Inr None)"
        and options = ?o and s = ?d and nm = "''/d''" and ic = "''folder''" and ?dialog0.0 = "()"
        and err = "Error ''navigateTo threw''"]
      root [of "Inl (Error ''navigateTo threw'')" "Inr None"]
    by (simp add: bridge_defs Path_toString_def)
  show "showOpenDialog (example_bridge example_getFileStat (Inr []) (Inr ((), Inr ()))
          (Inl (Error ''dialog failed''))) ?o
        = Inr (None, [Error ''dialog failed''])"
    using showOpenDialog_outcomes [where
        this = "example_bridge example_getFileStat (Inr []) (Inr ((), Inr ())) (Inl (Error ''dialog failed''))"
        and options = ?o and s = ?d and nm = "''/d''" and ic = "''folder''" and ?dialog0.0 = "()"
        and dialog = "()" and navigated = "Inr ()" and err = "Error ''dialog failed''"]
      root [of "Inr ((), Inr ())" "Inl (Error ''dialog failed'')"]
    by (simp add: bridge_defs Path_toString_def)
  show "showOpenDialog (example_bridge example_getFileStat (Inr []) (Inr ((), Inr ())) (Inr None))
          (example_options (Some ''file:///gone''))
        = Inl (Error ''Unable to find the rootStat'')"
    using showOpenDialog_outcomes [where
        this = "example_bridge example_getFileStat (Inr []) (Inr ((), Inr ())) (Inr None)"
        and options = "example_options (Some ''file:///gone'')" and u = "''file:///gone''"]
    by (simp add: bridge_defs truthy_string_def)
  show "showOpenDialog (example_bridge example_getFileStat (Inl (Error ''no workspace''))
          (Inr ((), Inr ())) (Inr None)) (example_options None)
        = Inl (Error ''no workspace'')"
    using showOpenDialog_outcomes [where
        this = "example_bridge example_getFileStat (Inl (Error ''no workspace'')) (Inr ((), Inr ())) (Inr None)"
        and options = "example_options None" and e = "Error ''no workspace''"]
    by (simp add: bridge_defs truthy_string_def)
  show "showOpenDialog (example_bridge (\<lambda>u. Inl (Error ''stat failed'')) (Inr []) (Inr ((), Inr ()))
          (Inr None)) ?o
        = Inl (Error ''stat failed'')"
    using showOpenDialog_outcomes [where
        this = "example_bridge (\<lambda>u. Inl (Error ''stat failed'')) (Inr []) (Inr ((), Inr ())) (Inr None)"
        and options = ?o and u = "''file:///d''" and e = "Error ''stat failed''"]
    by (simp add: bridge_defs truthy_string_def)
qed

section \<open>Properties of the navigator model\<close>

subsection \<open>\<^verbatim>\<open>updateRoot\<close>\<close>

lemma push_children_all:
  "\<forall>r\<in>set rs. createWorkspaceRoot this r w = Inr (f r)
   \<Longrightarrow> push_children this w rs cs = Inr (cs @ map f rs)"
  by (induction rs arbitrary: cs) simp_all

text \<open>
  C3. With zero workspace roots \<^verbatim>\<open>updateRoot\<close> sets the root of the tree to \<^verbatim>\<open>undefined\<close>. With
  \<open>N > 0\<close> roots, each of which \<^verbatim>\<open>createWorkspaceRoot\<close> turns into a WorkspaceRootNode \<open>f r\<close>,
  it sets the root to one new WorkspaceNode whose children are exactly the \<open>N\<close> nodes
  \<open>f r\<close>, one per workspace root, in the order of the provider.
\<close>

theorem updateRoot_root:
  "(roots (FileNavigatorModel.workspaceService this) = Inr []
      \<longrightarrow> updateRoot this t = Inr (t\<lparr>root := None\<rparr>))
   \<and> (roots (FileNavigatorModel.workspaceService this) = Inr rs \<and> rs \<noteq> []
      \<and> (\<forall>r\<in>set rs. createWorkspaceRoot this r (WorkspaceNode_createRoot []) = Inr (f r)
                     \<and> WorkspaceRootNode_is (Some (f r)))
      \<longrightarrow> (\<exists>w. updateRoot this t = Inr (t\<lparr>root := Some w\<rparr>)
             \<and> node_kind w = WorkspaceNode
             \<and> children w = map f rs
             \<and> length (children w) = length rs
             \<and> (\<forall>c\<in>set (children w). WorkspaceRootNode_is (Some c))))"
proof (intro conjI impI)
  assume "roots (FileNavigatorModel.workspaceService this) = Inr []"
  then show "updateRoot this t = Inr (t\<lparr>root := None\<rparr>)"
    by (simp add: updateRoot_def createRoot_def)
next
  assume a: "roots (FileNavigatorModel.workspaceService this) = Inr rs \<and> rs \<noteq> []
      \<and> (\<forall>r\<in>set rs. createWorkspaceRoot this r (WorkspaceNode_createRoot []) = Inr (f r)
                     \<and> WorkspaceRootNode_is (Some (f r)))"
  let ?w = "set_children (WorkspaceNode_createRoot []) (map f rs)"
  from a have "push_children this (WorkspaceNode_createRoot []) rs [] = Inr ([] @ map f rs)"
    by (intro push_children_all) simp
  with a have "updateRoot this t = Inr (t\<lparr>root := Some ?w\<rparr>)"
    by (simp add: updateRoot_def createRoot_def Let_def)
  moreover have "node_kind ?w = WorkspaceNode" "children ?w = map f rs"
    by (simp_all add: set_children_def WorkspaceNode_createRoot_def)
  moreover from a have "\<forall>c\<in>set (children ?w). WorkspaceRootNode_is (Some c)"
    by (auto simp: set_children_def)
  ultimately show "\<exists>w. updateRoot this t = Inr (t\<lparr>root := Some w\<rparr>)
             \<and> node_kind w = WorkspaceNode
             \<and> children w = map f rs
             \<and> length (children w) = length rs
             \<and> (\<forall>c\<in>set (children w). WorkspaceRootNode_is (Some c))"
    by (intro exI [of _ ?w]) simp
qed

theorem updateRoot_root_witness:
  "updateRoot (example_navigator []) example_tree = Inr (example_tree\<lparr>root := None\<rparr>)
   \<and> (\<exists>w. updateRoot (example_navigator example_roots) example_tree
            = Inr (example_tree\<lparr>root := Some w\<rparr>)
          \<and> node_kind w = WorkspaceNode
          \<and> children w =
              [TreeNode ''file:///a|file:///a'' WorkspaceRootNode (Some ''WorkspaceNode'') (Some False) [],
               TreeNode ''file:///b|file:///b'' WorkspaceRootNode (Some ''WorkspaceNode'') (Some False) []])"
proof
  show "updateRoot (example_navigator []) example_tree = Inr (example_tree\<lparr>root := None\<rparr>)"
    using updateRoot_root [of "example_navigator []" example_tree]
    by (simp add: example_navigator_def)
  let ?N = "example_navigator example_roots"
  let ?f = "\<lambda>r. TreeNode (uri r @ ''|'' @ uri r) WorkspaceRootNode (Some ''WorkspaceNode'') (Some False) []"
  have h: "roots (FileNavigatorModel.workspaceService ?N) = Inr example_roots \<and> example_roots \<noteq> []
      \<and> (\<forall>r\<in>set example_roots. createWorkspaceRoot ?N r (WorkspaceNode_createRoot []) = Inr (?f r)
                     \<and> WorkspaceRootNode_is (Some (?f r)))"
    by (simp add: example_navigator_def example_roots_def WorkspaceNode_createRoot_def
          WorkspaceRootNode_is_def)
  have m: "map ?f example_roots =
              [TreeNode ''file:///a|file:///a'' WorkspaceRootNode (Some ''WorkspaceNode'') (Some False) [],
               TreeNode ''file:///b|file:///b'' WorkspaceRootNode (Some ''WorkspaceNode'') (Some False) []]"
    by (simp add: example_roots_def example_stat_def)
  from updateRoot_root [of ?N example_tree example_roots ?f] h
  obtain w where "updateRoot ?N example_tree = Inr (example_tree\<lparr>root := Some w\<rparr>)"
    "node_kind w = WorkspaceNode" "children w = map ?f example_roots"
    by blast
  with m show "\<exists>w. updateRoot (example_navigator example_roots) example_tree
            = Inr (example_tree\<lparr>root := Some w\<rparr>)
          \<and> node_kind w = WorkspaceNode
          \<and> children w =
              [TreeNode ''file:///a|file:///a'' WorkspaceRootNode (Some ''WorkspaceNode'') (Some False) [],
               TreeNode ''file:///b|file:///b'' WorkspaceRootNode (Some ''WorkspaceNode'') (Some False) []]"
    by (intro exI [of _ w]) simp
qed

subsection \<open>\<^verbatim>\<open>move\<close>\<close>

text \<open>
  C7. For every source node that is a workspace root node with a parent, and every target,
  \<^verbatim>\<open>move(source, target)\<close> returns without an error and leaves the tree as it is, whatever
  the inherited \<^verbatim>\<open>move\<close> would do: it is not called.
\<close>

theorem move_workspace_root:
  "node_parent source \<noteq> None \<and> WorkspaceRootNode_is (Some source)
   \<Longrightarrow> move this source target t = Inr t"
  by (simp add: move_def)

theorem move_workspace_root_witness:
  "move (example_navigator example_roots)
     (TreeNode ''file:///a|file:///a'' WorkspaceRootNode (Some ''WorkspaceNode'') (Some True) [])
     (TreeNode ''file:///a|file:///a/s'' DirNode (Some ''file:///a|file:///a'') (Some True) [])
     example_tree = Inr example_tree
   \<and> super_move (example_navigator example_roots)
     (TreeNode ''file:///a|file:///a'' WorkspaceRootNode (Some ''WorkspaceNode'') (Some True) [])
     (TreeNode ''file:///a|file:///a/s'' DirNode (Some ''file:///a|file:///a'') (Some True) [])
     example_tree = Inl (Error ''super.move'')"
  using move_workspace_root [of
      "TreeNode ''file:///a|file:///a'' WorkspaceRootNode (Some ''WorkspaceNode'') (Some True) []"
      "example_navigator example_roots"
      "TreeNode ''file:///a|file:///a/s'' DirNode (Some ''file:///a|file:///a'') (Some True) []"
      example_tree]
  by (simp add: WorkspaceRootNode_is_def example_navigator_def)

subsection \<open>\<^verbatim>\<open>getNodeClosestToRootByUri\<close>\<close>

text \<open>
  The reduction keeps the first node among those with the longest id: all nodes before it
  have a strictly shorter id, no node after it has a longer one.
\<close>


lemma foldl_longest:
  "\<exists>before n after. x # xs = before @ n # after
     \<and> foldl (\<lambda>node1 node2.
          if length (node_id node1) \<ge> length (node_id node2) then node1 else node2) x xs = n
     \<and> (\<forall>m\<in>set before. length (node_id m) < length (node_id n))
     \<and> (\<forall>m\<in>set after. length (node_id m) \<le> length (node_id n))"
proof (induction xs rule: rev_induct)
  case Nil
  have "[x] = [] @ x # []" by simp
  then show ?case by fastforce
next
  case (snoc y ys)
  let ?f = "\<lambda>node1 node2. if length (node_id node1) \<ge> length (node_id node2) then node1 else node2"
  from snoc obtain before n after where split: "x # ys = before @ n # after"
    and n: "foldl ?f x ys = n"
    and lt: "\<forall>m\<in>set before. length (node_id m) < length (node_id n)"
    and le: "\<forall>m\<in>set after. length (node_id m) \<le> length (node_id n)"
    by blast
  show ?case
  proof (cases "length (node_id y) \<le> length (node_id n)")
    case True
    have "x # ys @ [y] = before @ n # (after @ [y])"
      using split by simp
    moreover have "foldl ?f x (ys @ [y]) = n"
      using True n by simp
    moreover have "\<forall>m\<in>set (after @ [y]). length (node_id m) \<le> length (node_id n)"
      using True le by simp
    ultimately show ?thesis using lt by blast
  next
    case False
    have "x # ys @ [y] = (x # ys) @ y # []"
      by simp
    moreover have "foldl ?f x (ys @ [y]) = y"
      using False n by simp
    moreover have "\<forall>m\<in>set (x # ys). length (node_id m) < length (node_id y)"
    proof
      fix m assume "m \<in> set (x # ys)"
      then have "m \<in> set before \<or> m = n \<or> m \<in> set after"
        unfolding split by auto
      then have "length (node_id m) \<le> length (node_id n)"
        using lt le by fastforce
      then show "length (node_id m) < length (node_id y)"
        using False by simp
    qed
    moreover have "\<forall>m\<in>set []. length (node_id m) \<le> length (node_id y)"
      by simp
    ultimately show ?thesis by blast
  qed
qed


text \<open>
  C9. Given the candidate nodes \<open>ns\<close> that the URI resolves to under the workspace roots, in
  the order of the roots: with zero candidates \<^verbatim>\<open>getNodeClosestToRootByUri\<close> returns
  \<^verbatim>\<open>undefined\<close>; otherwise it returns a candidate whose id is of maximal length among all
  candidates, and of two candidates with ids of that length the one of the earlier root
  (every candidate before the returned one has a strictly shorter id).
\<close>


theorem getNodeClosestToRootByUri_longest:
  assumes "getNodesByUri this u t = Inr ns"
  shows "(ns = [] \<longrightarrow> getNodeClosestToRootByUri this u t = Inr None)
       \<and> (ns \<noteq> [] \<longrightarrow> (\<exists>before n after. ns = before @ n # after
           \<and> getNodeClosestToRootByUri this u t = Inr (Some n)
           \<and> (\<forall>m\<in>set before. length (node_id m) < length (node_id n))
           \<and> (\<forall>m\<in>set after. length (node_id m) \<le> length (node_id n))))"
proof (cases ns)
  case Nil
  with assms show ?thesis by (simp add: getNodeClosestToRootByUri_def)
next
  case (Cons x xs)
  from foldl_longest [of x xs] obtain before n after where split: "x # xs = before @ n # after"
    and n: "foldl (\<lambda>node1 node2.
        if length (node_id node1) \<ge> length (node_id node2) then node1 else node2) x xs = n"
    and lt: "\<forall>m\<in>set before. length (node_id m) < length (node_id n)"
    and le: "\<forall>m\<in>set after. length (node_id m) \<le> length (node_id n)"
    by blast
  have "getNodeClosestToRootByUri this u t = Inr (Some n)"
    using assms n by (simp add: getNodeClosestToRootByUri_def reduce_def Cons)
  moreover have "ns = before @ n # after"
    using split Cons by simp
  ultimately show ?thesis
    using lt le by blast
qed

theorem getNodeClosestToRootByUri_longest_witness:
  "getNodesByUri (example_navigator overlapping_roots) ''file:///a/s/x'' overlapping_tree
     = Inr [TreeNode ''file:///a|file:///a/s/x'' FileNode (Some ''file:///a|file:///a/s'') None [],
            TreeNode ''file:///a/s|file:///a/s/x'' FileNode (Some ''file:///a/s|file:///a/s'') None []]
   \<and> getNodeClosestToRootByUri (example_navigator overlapping_roots) ''file:///a/s/x'' overlapping_tree
     = Inr (Some (TreeNode ''file:///a/s|file:///a/s/x'' FileNode (Some ''file:///a/s|file:///a/s'') None []))
   \<and> getNodesByUri (example_navigator overlapping_roots) ''file:///q'' overlapping_tree = Inr []
   \<and> getNodeClosestToRootByUri (example_navigator overlapping_roots) ''file:///q'' overlapping_tree
     = Inr None"
proof -
  let ?N = "example_navigator overlapping_roots"
  let ?x1 = "TreeNode ''file:///a|file:///a/s/x'' FileNode (Some ''file:///a|file:///a/s'') None []"
  let ?x2 = "TreeNode ''file:///a/s|file:///a/s/x'' FileNode (Some ''file:///a/s|file:///a/s'') None []"
  have ns: "getNodesByUri ?N ''file:///a/s/x'' overlapping_tree = Inr [?x1, ?x2]"
    by (simp add: navigator_defs lookup_defs)
  have none: "getNodesByUri ?N ''file:///q'' overlapping_tree = Inr []"
    by (simp add: navigator_defs lookup_defs)
  from getNodeClosestToRootByUri_longest [OF ns] obtain before n after
    where split: "[?x1, ?x2] = before @ n # after"
      and n: "getNodeClosestToRootByUri ?N ''file:///a/s/x'' overlapping_tree = Inr (Some n)"
      and lt: "\<forall>m\<in>set before. length (node_id m) < length (node_id n)"
      and le: "\<forall>m\<in>set after. length (node_id m) \<le> length (node_id n)"
    by blast
  have "n = ?x2"
  proof (cases before)
    case Nil
    with split have "n = ?x1" "after = [?x2]" by simp_all
    with le show ?thesis by simp
  next
    case (Cons b bs)
    with split have "b = ?x1" "bs @ n # after = [?x2]" by simp_all
    then show ?thesis by (cases bs) simp_all
  qed
  with n ns none getNodeClosestToRootByUri_longest [OF none] show ?thesis
    by simp
qed

subsection \<open>\<^verbatim>\<open>revealFile\<close>\<close>

text \<open>
  C4. For every URI whose scheme is not \<^verbatim>\<open>file\<close>, \<^verbatim>\<open>revealFile\<close> returns \<^verbatim>\<open>undefined\<close> at once:
  whatever the workspace service, the tree and the other collaborators are, the call
  returns, raises no error and leaves the tree as it is.
\<close>

theorem revealFile_not_file:
  "scheme u \<noteq> ''file'' \<Longrightarrow> revealFile this u t = Some (Inr (None, t))"
  by (subst revealFile.simps) simp

text \<open>The recursive call is on the parent, whose path is strictly shorter.\<close>


lemma parent_shorter: "\<not> isRoot (path u) \<Longrightarrow> length (path (parent u)) < length (path u)"
  by (simp add: isRoot_def parent_def)

lemma scheme_parent [simp]: "scheme (parent u) = scheme u"
  by (simp add: parent_def)

lemma revealFile_step:
  assumes "scheme u = ''file''"
    and "getNodeClosestToRootByUri this (toString u) t = Inr node"
    and "\<not> WorkspaceRootNode_is node" and "\<not> isRoot (path u)"
  shows "revealFile this u t =
           Option.bind (revealFile this (parent u) t)
             (\<lambda>r. Some (after_parent this (toString u) node r))"
  using assms by (subst revealFile.simps) simp

lemma revealFile_depth_step:
  assumes "scheme u = ''file''"
    and "getNodeClosestToRootByUri this (toString u) t = Inr node"
    and "\<not> WorkspaceRootNode_is node" and "\<not> isRoot (path u)"
  shows "revealFile_depth (Suc d) this u t =
           Option.bind (revealFile_depth d this (parent u) t)
             (\<lambda>r. Some (after_parent this (toString u) node r))"
  using assms by simp

lemma revealFile_base:
  assumes "scheme u \<noteq> ''file'' \<or> (\<exists>e. getNodeClosestToRootByUri this (toString u) t = Inl e)
     \<or> (\<exists>node. getNodeClosestToRootByUri this (toString u) t = Inr node
           \<and> (WorkspaceRootNode_is node \<or> isRoot (path u)))"
  shows "revealFile_depth (Suc d) this u t = revealFile this u t
         \<and> (\<exists>r. revealFile this u t = Some r)"
  using assms by (subst (1 2) revealFile.simps) (auto simp: Let_def)

lemma revealFile_within_depth:
  "length (path u) < d \<Longrightarrow>
     revealFile_depth d this u t = revealFile this u t \<and> (\<exists>r. revealFile this u t = Some r)"
proof (induction d arbitrary: u)
  case 0
  then show ?case by simp
next
  case (Suc d)
  show ?case
  proof (cases "scheme u = ''file'' \<and> (\<exists>node. getNodeClosestToRootByUri this (toString u) t = Inr node
           \<and> \<not> WorkspaceRootNode_is node \<and> \<not> isRoot (path u))")
    case True
    then obtain node where node: "scheme u = ''file''"
      "getNodeClosestToRootByUri this (toString u) t = Inr node"
      "\<not> WorkspaceRootNode_is node" "\<not> isRoot (path u)"
      by blast
    from node(4) Suc.prems have "length (path (parent u)) < d"
      using parent_shorter [of u] by simp
    from Suc.IH [OF this] obtain r where
      "revealFile_depth d this (parent u) t = revealFile this (parent u) t"
      "revealFile this (parent u) t = Some r"
      by blast
    then show ?thesis
      by (simp add: revealFile_step [OF node] revealFile_depth_step [OF node]
            del: revealFile_depth.simps)
  next
    case False
    then have "scheme u \<noteq> ''file'' \<or> (\<exists>e. getNodeClosestToRootByUri this (toString u) t = Inl e)
     \<or> (\<exists>node. getNodeClosestToRootByUri this (toString u) t = Inr node
           \<and> (WorkspaceRootNode_is node \<or> isRoot (path u)))"
      by (cases "getNodeClosestToRootByUri this (toString u) t") auto
    then show ?thesis by (rule revealFile_base)
  qed
qed


text \<open>
  C10. \<^verbatim>\<open>revealFile\<close> returns on every URI, for every tree and all collaborators. The
  recursive call is on the parent of the URI, whose path is strictly shorter unless the
  path is the filesystem root, where the recursion stops at the latest; so the depth of the
  recursion is bounded by the number of path segments: with a bound greater than that
  number the depth-bounded function never runs out and gives the result of \<^verbatim>\<open>revealFile\<close>.
\<close>


theorem revealFile_terminates:
  "(\<exists>r. revealFile this u t = Some r)
   \<and> (\<forall>d. length (path u) < d \<longrightarrow> revealFile_depth d this u t = revealFile this u t)
   \<and> (\<not> isRoot (path u) \<longrightarrow> length (path (parent u)) < length (path u))"
  using revealFile_within_depth [of u "Suc (length (path u))" this t]
    revealFile_within_depth [of u _ this t] parent_shorter [of u]
  by blast


text \<open>The chain of a URI holds the URI and the chains of its ancestors; the scheme is kept.\<close>


lemma ancestry_self: "u \<in> set (ancestry u)"
  by (subst ancestry.simps) simp

lemma ancestry_parent: "\<not> isRoot (path u) \<Longrightarrow> set (ancestry (parent u)) \<subseteq> set (ancestry u)"
  by (subst (2) ancestry.simps) auto

lemma ancestry_closed: "a \<in> set (ancestry u) \<Longrightarrow> set (ancestry a) \<subseteq> set (ancestry u)"
proof (induction u rule: ancestry.induct)
  case (1 u)
  show ?case
  proof (cases "isRoot (path u)")
    case True
    with "1.prems" have "a = u" by (subst (asm) ancestry.simps) simp
    then show ?thesis by simp
  next
    case False
    with "1.prems" have "a = u \<or> a \<in> set (ancestry (parent u))"
      by (subst (asm) ancestry.simps) simp
    then show ?thesis
    proof
      assume "a = u" then show ?thesis by simp
    next
      assume "a \<in> set (ancestry (parent u))"
      with "1.IH" False have "set (ancestry a) \<subseteq> set (ancestry (parent u))" by simp
      with ancestry_parent [OF False] show ?thesis by blast
    qed
  qed
qed

lemma ancestry_scheme: "a \<in> set (ancestry u) \<Longrightarrow> scheme a = scheme u"
proof (induction u rule: ancestry.induct)
  case (1 u)
  from "1.prems" have "a = u \<or> (\<not> isRoot (path u) \<and> a \<in> set (ancestry (parent u)))"
    by (subst (asm) ancestry.simps) (simp split: if_splits)
  with "1.IH" show ?case by auto
qed

lemma revealFile_outside_self:
  "scheme u = ''file'' \<Longrightarrow>
   \<forall>a\<in>set (ancestry u). \<exists>node. getNodeClosestToRootByUri this (toString a) t = Inr node
                                  \<and> \<not> WorkspaceRootNode_is node
   \<Longrightarrow> revealFile this u t = Some (Inr (None, t))"
proof (induction u rule: ancestry.induct)
  case (1 u)
  from "1.prems"(2) ancestry_self [of u] obtain node where
    node: "getNodeClosestToRootByUri this (toString u) t = Inr node" "\<not> WorkspaceRootNode_is node"
    by blast
  show ?case
  proof (cases "isRoot (path u)")
    case True
    with node "1.prems"(1) show ?thesis
      by (subst revealFile.simps) simp
  next
    case False
    have "revealFile this (parent u) t = Some (Inr (None, t))"
      using "1.IH" [OF False] "1.prems" ancestry_parent [OF False] by auto
    then show ?thesis
      by (simp add: revealFile_step [OF "1.prems"(1) node False] after_parent_def)
  qed
qed


text \<open>
  C5. For every URI of scheme \<^verbatim>\<open>file\<close> that lies outside every workspace root (no lookup
  along its chain of ancestors, up to the filesystem root, resolves to a workspace root
  node), \<^verbatim>\<open>revealFile\<close> returns \<^verbatim>\<open>undefined\<close> and leaves the tree as it is; so does the call
  for every URI of the chain, that is every intermediate call of the recursion down to the
  one on the filesystem root.
\<close>


theorem revealFile_outside_workspace:
  assumes "scheme u = ''file''"
    and "\<forall>a\<in>set (ancestry u). \<exists>node. getNodeClosestToRootByUri this (toString a) t = Inr node
                                        \<and> \<not> WorkspaceRootNode_is node"
  shows "\<forall>a\<in>set (ancestry u). revealFile this a t = Some (Inr (None, t))"
proof
  fix a assume a: "a \<in> set (ancestry u)"
  have "scheme a = ''file''"
    using a assms(1) ancestry_scheme by simp
  moreover have "\<forall>b\<in>set (ancestry a). \<exists>node. getNodeClosestToRootByUri this (toString b) t = Inr node
                                        \<and> \<not> WorkspaceRootNode_is node"
    using assms(2) ancestry_closed [OF a] by blast
  ultimately show "revealFile this a t = Some (Inr (None, t))"
    by (rule revealFile_outside_self)
qed

lemma expand_and_return_expanded:
  "\<not> ExpandableTreeNode_is (Some n) \<or> is_expanded n
   \<Longrightarrow> expand_and_return this (Some n) t = Inr (Some n, t)"
  by (auto simp: expand_and_return_def)


text \<open>
  C6, amended. \<^verbatim>\<open>revealFile\<close> is a pure lookup on a revealed path: for every URI of scheme
  \<^verbatim>\<open>file\<close> whose own node is mounted and needs no expansion (it is not expandable, or it
  is expanded), and whose every ancestor directory node up to the workspace root node is
  mounted and expanded, \<^verbatim>\<open>revealFile\<close> returns the node the lookup finds and the tree it was
  given, whatever \<^verbatim>\<open>expandNode\<close> would do: no node is expanded. A repeated call is the same
  call on the same tree, and returns the same.
\<close>


theorem revealFile_pure_lookup:
  "scheme u = ''file'' \<Longrightarrow> revealed_chain this t (ancestry u)
   \<Longrightarrow> \<exists>n. getNodeClosestToRootByUri this (toString u) t = Inr (Some n)
          \<and> revealFile this u t = Some (Inr (Some n, t))"
proof (induction u rule: ancestry.induct)
  case (1 u)
  define as where "as = (if isRoot (path u) then [] else ancestry (parent u))"
  have as: "ancestry u = u # as"
    unfolding as_def by (subst ancestry.simps) simp
  with "1.prems"(2) obtain n where n: "getNodeClosestToRootByUri this (toString u) t = Inr (Some n)"
    and chain: "if WorkspaceRootNode_is (Some n) then is_expanded n
          else (\<not> ExpandableTreeNode_is (Some n) \<or> is_expanded n) \<and> revealed_chain this t as"
    by (auto split: sum.splits option.splits)
  show ?case
  proof (cases "WorkspaceRootNode_is (Some n)")
    case True
    with chain have "is_expanded n" by simp
    then have "ExpandableTreeNode_is (Some n)"
      by (simp add: is_expanded_def ExpandableTreeNode_is_def)
    then have "revealFile this u t = Some (Inr (Some n, t))"
      using True n "1.prems"(1) \<open>is_expanded n\<close>
      by (subst revealFile.simps) (simp add: expand_and_return_expanded)
    with n show ?thesis by simp
  next
    case False
    with chain have ok: "\<not> ExpandableTreeNode_is (Some n) \<or> is_expanded n"
      and rest: "revealed_chain this t as" by simp_all
    from rest have notroot: "\<not> isRoot (path u)"
      by (auto simp: as_def split: if_splits)
    with rest have "revealed_chain this t (ancestry (parent u))" by (simp add: as_def)
    with "1.IH" [OF notroot] "1.prems"(1) obtain p where
      "revealFile this (parent u) t = Some (Inr (Some p, t))" by auto
    then have "revealFile this u t = Some (Inr (Some n, t))"
      using ok
      by (simp add: revealFile_step [OF "1.prems"(1) n False notroot] after_parent_def
            expand_and_return_expanded)
    with n show ?thesis by simp
  qed
qed

subsection \<open>\<^verbatim>\<open>revealFile\<close> on the example tree\<close>

lemma file_uri_simps:
  "scheme (file_uri p) = ''file''" "path (file_uri p) = p"
  "parent (file_uri p) = file_uri (butlast p)"
  by (simp_all add: file_uri_def parent_def)

lemma example_ancestry:
  "ancestry (file_uri [p, q, r]) = [file_uri [p, q, r], file_uri [p, q], file_uri [p], file_uri []]"
  "ancestry (file_uri [p, q]) = [file_uri [p, q], file_uri [p], file_uri []]"
  "ancestry (file_uri [p]) = [file_uri [p], file_uri []]"
  by (simp_all add: ancestry.simps file_uri_def isRoot_def parent_def)

lemma example_lookups:
  "getNodeClosestToRootByUri (example_navigator example_roots) (toString (file_uri [''a''])) example_tree
     = Inr (Some (TreeNode ''file:///a|file:///a'' WorkspaceRootNode (Some ''WorkspaceNode'') (Some True) []))"
  "getNodeClosestToRootByUri (example_navigator example_roots) (toString (file_uri [''a'', ''s''])) example_tree
     = Inr (Some (TreeNode ''file:///a|file:///a/s'' DirNode (Some ''file:///a|file:///a'') (Some True) []))"
  "getNodeClosestToRootByUri (example_navigator example_roots) (toString (file_uri [''a'', ''s'', ''x''])) example_tree
     = Inr (Some (TreeNode ''file:///a|file:///a/s/x'' FileNode (Some ''file:///a|file:///a/s'') None []))"
  "getNodeClosestToRootByUri (example_navigator example_roots) (toString (file_uri [''a'', ''c''])) example_tree
     = Inr (Some (TreeNode ''file:///a|file:///a/c'' DirNode (Some ''file:///a|file:///a'') (Some False) []))"
  "getNodeClosestToRootByUri (example_navigator example_roots) (toString (file_uri [''z'', ''x''])) example_tree
     = Inr None"
  "getNodeClosestToRootByUri (example_navigator example_roots) (toString (file_uri [''z''])) example_tree
     = Inr None"
  "getNodeClosestToRootByUri (example_navigator example_roots) (toString (file_uri [])) example_tree
     = Inr None"
  by (simp_all add: navigator_defs lookup_defs)

lemmas guard_defs = WorkspaceRootNode_is_def ExpandableTreeNode_is_def DirNode_is_def
  FileNode_is_def is_expanded_def

theorem revealFile_not_file_witness:
  "revealFile (example_navigator example_roots) \<lparr>scheme = ''http'', path = [''a'', ''s'', ''x'']\<rparr> example_tree
   = Some (Inr (None, example_tree))"
  using revealFile_not_file [of "\<lparr>scheme = ''http'', path = [''a'', ''s'', ''x'']\<rparr>"
      "example_navigator example_roots" example_tree]
  by simp

theorem revealFile_terminates_witness:
  "(\<exists>r. revealFile (example_navigator example_roots) (file_uri [''a'', ''s'', ''x'']) example_tree = Some r)
   \<and> revealFile_depth 4 (example_navigator example_roots) (file_uri [''a'', ''s'', ''x'']) example_tree
     = revealFile (example_navigator example_roots) (file_uri [''a'', ''s'', ''x'']) example_tree
   \<and> length (path (parent (file_uri [''a'', ''s'', ''x'']))) < length (path (file_uri [''a'', ''s'', ''x'']))"
  using revealFile_terminates [of "example_navigator example_roots" "file_uri [''a'', ''s'', ''x'']" example_tree]
  by (simp add: file_uri_simps isRoot_def)

theorem revealFile_outside_workspace_witness:
  "revealFile (example_navigator example_roots) (file_uri [''z'', ''x'']) example_tree
     = Some (Inr (None, example_tree))
   \<and> revealFile (example_navigator example_roots) (file_uri [''z'']) example_tree
     = Some (Inr (None, example_tree))
   \<and> revealFile (example_navigator example_roots) (file_uri []) example_tree
     = Some (Inr (None, example_tree))"
proof -
  have "scheme (file_uri [''z'', ''x'']) = ''file''"
    by (simp add: file_uri_simps)
  moreover have "\<forall>a\<in>set (ancestry (file_uri [''z'', ''x''])).
      \<exists>node. getNodeClosestToRootByUri (example_navigator example_roots) (toString a) example_tree = Inr node
            \<and> \<not> WorkspaceRootNode_is node"
    by (simp add: example_ancestry example_lookups guard_defs)
  ultimately have "\<forall>a\<in>set (ancestry (file_uri [''z'', ''x''])).
      revealFile (example_navigator example_roots) a example_tree = Some (Inr (None, example_tree))"
    by (rule revealFile_outside_workspace)
  then show ?thesis
    by (simp add: example_ancestry)
qed

theorem revealFile_pure_lookup_witness:
  "revealFile (example_navigator example_roots) (file_uri [''a'', ''s'', ''x'']) example_tree
   = Some (Inr (Some (TreeNode ''file:///a|file:///a/s/x'' FileNode (Some ''file:///a|file:///a/s'') None []),
                example_tree))"
proof -
  have "scheme (file_uri [''a'', ''s'', ''x'']) = ''file''"
    by (simp add: file_uri_simps)
  moreover have "revealed_chain (example_navigator example_roots) example_tree
      (ancestry (file_uri [''a'', ''s'', ''x'']))"
    by (simp add: example_ancestry example_lookups guard_defs)
  ultimately show ?thesis
    using revealFile_pure_lookup [of "file_uri [''a'', ''s'', ''x'']" "example_navigator example_roots" example_tree]
    by (auto simp: example_lookups)
qed

text \<open>
  C6, as stated, fails for a URI whose own node is a collapsed directory. In the example
  tree the only ancestor directory node of \<^verbatim>\<open>file:///a/c\<close>, the workspace root node of
  \<^verbatim>\<open>file:///a\<close>, is mounted and expanded, and the node of \<^verbatim>\<open>file:///a/c\<close> is mounted; yet
  \<^verbatim>\<open>revealFile\<close> expands that node (lines 119 to 121), and the tree it leaves is another.
\<close>

theorem revealFile_expands_target:
  "revealed_chain (example_navigator example_roots) example_tree (ancestry (file_uri [''a'']))
   \<and> revealFile (example_navigator example_roots) (file_uri [''a'', ''c'']) example_tree
     = Some (Inr (Some (TreeNode ''file:///a|file:///a/c'' DirNode (Some ''file:///a|file:///a'') (Some False) []),
                  example_tree_expanded))
   \<and> example_tree_expanded \<noteq> example_tree"
proof (intro conjI)
  let ?N = "example_navigator example_roots"
  let ?a = "TreeNode ''file:///a|file:///a'' WorkspaceRootNode (Some ''WorkspaceNode'') (Some True) []"
  let ?c = "TreeNode ''file:///a|file:///a/c'' DirNode (Some ''file:///a|file:///a'') (Some False) []"
  show "revealed_chain ?N example_tree (ancestry (file_uri [''a'']))"
    by (simp add: example_ancestry example_lookups guard_defs)
  have a: "revealFile ?N (file_uri [''a'']) example_tree = Some (Inr (Some ?a, example_tree))"
    by (subst revealFile.simps)
       (simp add: example_lookups guard_defs expand_and_return_def file_uri_simps)
  have p: "parent (file_uri [''a'', ''c'']) = file_uri [''a'']"
    by (simp add: file_uri_simps)
  have e: "expandNode ?N ?c example_tree = Inr example_tree_expanded"
    by (simp add: example_navigator_def example_tree_expanded_def)
  have "revealFile ?N (file_uri [''a'', ''c'']) example_tree
        = Option.bind (revealFile ?N (parent (file_uri [''a'', ''c''])) example_tree)
            (\<lambda>r. Some (after_parent ?N (toString (file_uri [''a'', ''c''])) (Some ?c) r))"
    by (rule revealFile_step) (simp_all add: example_lookups guard_defs file_uri_simps isRoot_def)
  then show "revealFile ?N (file_uri [''a'', ''c'']) example_tree = Some (Inr (Some ?c, example_tree_expanded))"
    by (simp add: p a e after_parent_def expand_and_return_def guard_defs)
  have "getNode example_tree_expanded ''file:///a|file:///a/c'' \<noteq> getNode example_tree ''file:///a|file:///a/c''"
    by (simp add: getNode_def example_tree_expanded_def example_tree_def example_node_def)
  then show "example_tree_expanded \<noteq> example_tree"
    by auto
qed

subsection \<open>\<^verbatim>\<open>collectAffectedNodes\<close>\<close>

lemma fold_accept_filter:
  "fold (\<lambda>x acc. if P x then f x acc else acc) xs s = fold f (filter P xs) s"
  by (induction xs arbitrary: s) simp_all

text \<open>
  What \<^verbatim>\<open>collectAffectedNodes\<close> does: nothing when \<^verbatim>\<open>isFileContentChanged\<close> holds, which looks
  the changed URI up under the first workspace root only; otherwise it calls \<^verbatim>\<open>accept\<close>, in
  order, on the mounted nodes of the parent URI that are expanded directory nodes.
\<close>

lemma collectAffectedNodes_calls:
  "(isFileContentChanged this change t \<longrightarrow> collectAffectedNodes this change accept t s = Inr s)
   \<and> (\<not> isFileContentChanged this change t
        \<and> getNodesByUri this (toString (parent (change_uri change))) t = Inr ns
      \<longrightarrow> collectAffectedNodes this change accept t s
          = Inr (fold accept (filter (\<lambda>n. DirNode_is (Some n) \<and> is_expanded n) ns) s))"
  by (simp add: collectAffectedNodes_def fold_accept_filter)

text \<open>
  C8, on a workspace with two roots, fails in the code. The change is an UPDATED event for
  \<^verbatim>\<open>file:///b/y\<close>, which a mounted FileNode under the second root represents, so the claim
  has the callback invoked zero times. \<^verbatim>\<open>isFileContentChanged\<close> looks the URI up under
  \<^verbatim>\<open>roots[0]\<close> only, finds no node, and the callback is invoked once, on the expanded node
  of \<^verbatim>\<open>file:///b\<close>.
\<close>

theorem collectAffectedNodes_second_root:
  "change_type \<lparr>change_uri = file_uri [''b'', ''y''], change_type = UPDATED\<rparr> = UPDATED
   \<and> getNodesByUri (example_navigator example_roots) (toString (file_uri [''b'', ''y''])) example_tree
     = Inr [TreeNode ''file:///b|file:///b/y'' FileNode (Some ''file:///b|file:///b'') None []]
   \<and> FileNode_is (Some (TreeNode ''file:///b|file:///b/y'' FileNode (Some ''file:///b|file:///b'') None []))
   \<and> collectAffectedNodes (example_navigator example_roots)
       \<lparr>change_uri = file_uri [''b'', ''y''], change_type = UPDATED\<rparr>
       (\<lambda>node accepted. accepted @ [node]) example_tree []
     = Inr [TreeNode ''file:///b|file:///b'' WorkspaceRootNode (Some ''WorkspaceNode'') (Some True) []]"
  by (simp add: collectAffectedNodes_def isFileContentChanged_def navigator_defs lookup_defs
        guard_defs parent_def Let_def)

end
